theory Spec2Isabelle
  imports Complex_Main
begin

section \<open>Formant extraction from phone-aligned TextGrids\<close>

text \<open>
  A shallow embedding of the processing cell of \<^verbatim>\<open>01_extract_formants.ipynb\<close>.
  The cell walks the \<^verbatim>\<open>.wav\<close> files of a directory, opens the TextGrid of the same
  stem, scans the tiers named in \<^verbatim>\<open>phones_tiers\<close> for vowel labels and appends one
  dictionary per sample point to the global list \<^verbatim>\<open>data\<close>.

  Times are Python floats in the source. They are modelled as exact rationals: every
  finite float is a rational, and the operations are taken without rounding.
\<close>

subsection \<open>Python values\<close>

datatype error = PraatError | ZeroDivisionError | FileNotFoundError

text \<open>Slicing \<^verbatim>\<open>s[lo:hi]\<close>: a negative bound counts from the end, and every bound is
  clipped to the length, so a slice never raises.\<close>

definition py_bound :: "int \<Rightarrow> nat \<Rightarrow> nat" where
  "py_bound i n = (if i < 0 then nat (max 0 (int n + i)) else min (nat i) n)"

definition py_slice :: "int \<Rightarrow> int \<Rightarrow> 'a list \<Rightarrow> 'a list" where
  "py_slice lo hi s =
     (let a = py_bound lo (length s); b = py_bound hi (length s)
      in take (b - a) (drop a s))"

definition endswith :: "string \<Rightarrow> string \<Rightarrow> bool" where
  "endswith s suffix =
     (length suffix \<le> length s \<and> drop (length s - length suffix) s = suffix)"

text \<open>\<^verbatim>\<open>int(x)\<close> on a float truncates toward zero; float division by zero raises.\<close>

definition py_int :: "rat \<Rightarrow> int" where
  "py_int x = (if 0 \<le> x then \<lfloor>x\<rfloor> else \<lceil>x\<rceil>)"

definition py_div :: "rat \<Rightarrow> rat \<Rightarrow> error + rat" where
  "py_div a b = (if b = 0 then Inl ZeroDivisionError else Inr (a / b))"

subsection \<open>The vowel pattern\<close>

text \<open>
  The label test is \<^verbatim>\<open>re.search(r'^[a,e,i,o,u,j,w]\+?', label)\<close>. The pattern is a
  character set followed by an optional literal plus sign. The set is written in the
  source with commas between the letters, and inside brackets a comma is a member like
  any other character. With the anchor and without the multi-line flag the search can
  only match at position 0.
\<close>

datatype atom = CharSet string | Literal char

datatype item = Once atom | Optional atom

fun atom_matches :: "atom \<Rightarrow> char \<Rightarrow> bool" where
  "atom_matches (CharSet cs) c = (c \<in> set cs)"
| "atom_matches (Literal l) c = (c = l)"

fun match_here :: "item list \<Rightarrow> string \<Rightarrow> bool" where
  "match_here [] s = True"
| "match_here (Once a # p) [] = False"
| "match_here (Once a # p) (c # s) = (atom_matches a c \<and> match_here p s)"
| "match_here (Optional a # p) [] = match_here p []"
| "match_here (Optional a # p) (c # s) =
     ((atom_matches a c \<and> match_here p s) \<or> match_here p (c # s))"

definition vowel_pattern :: "item list" where
  "vowel_pattern = [Once (CharSet ''a,e,i,o,u,j,w''), Optional (Literal (CHR ''+''))]"

definition re_search :: "item list \<Rightarrow> string \<Rightarrow> bool" where
  "re_search p label = match_here p label"

subsection \<open>The TextGrid and Praat's queries\<close>

text \<open>
  A TextGrid is a list of interval tiers. Praat numbers tiers and intervals from 1. Its
  queries are not part of the notebook; they are modelled after Praat's behaviour:
  a query naming a tier or an interval outside \<open>1..n\<close> is an error (raised by
  \<^verbatim>\<open>call\<close> as an exception), and \<^verbatim>\<open>Get interval at time\<close> answers the number of the
  first interval with \<open>xmin \<le> t < xmax\<close>, or 0 when the tier has none. Point tiers, and
  Praat's treatment of a time equal to the end of the tier, are left out: the notebook
  asks for the midpoint of an interval, which lies strictly before its end.
\<close>

record interval =
  itext :: string
  xmin :: rat
  xmax :: rat

record tier =
  tname :: string
  intervals :: "interval list"

type_synonym textgrid = "tier list"

definition get_number_of_tiers :: "textgrid \<Rightarrow> nat" where
  "get_number_of_tiers tg = length tg"

definition peek_tier :: "textgrid \<Rightarrow> nat \<Rightarrow> error + tier" where
  "peek_tier tg tierIdx =
     (if 1 \<le> tierIdx \<and> tierIdx \<le> length tg then Inr (tg ! (tierIdx - 1))
      else Inl PraatError)"

definition peek_interval :: "textgrid \<Rightarrow> nat \<Rightarrow> nat \<Rightarrow> error + interval" where
  "peek_interval tg tierIdx intervalIdx =
     (case peek_tier tg tierIdx of
        Inl e \<Rightarrow> Inl e
      | Inr t \<Rightarrow>
          if 1 \<le> intervalIdx \<and> intervalIdx \<le> length (intervals t)
          then Inr (intervals t ! (intervalIdx - 1))
          else Inl PraatError)"

definition get_tier_name :: "textgrid \<Rightarrow> nat \<Rightarrow> error + string" where
  "get_tier_name tg tierIdx =
     (case peek_tier tg tierIdx of Inl e \<Rightarrow> Inl e | Inr t \<Rightarrow> Inr (tname t))"

definition get_number_of_intervals :: "textgrid \<Rightarrow> nat \<Rightarrow> error + nat" where
  "get_number_of_intervals tg tierIdx =
     (case peek_tier tg tierIdx of Inl e \<Rightarrow> Inl e | Inr t \<Rightarrow> Inr (length (intervals t)))"

definition get_label_of_interval :: "textgrid \<Rightarrow> nat \<Rightarrow> nat \<Rightarrow> error + string" where
  "get_label_of_interval tg tierIdx intervalIdx =
     (case peek_interval tg tierIdx intervalIdx of Inl e \<Rightarrow> Inl e | Inr i \<Rightarrow> Inr (itext i))"

definition get_starting_point :: "textgrid \<Rightarrow> nat \<Rightarrow> nat \<Rightarrow> error + rat" where
  "get_starting_point tg tierIdx intervalIdx =
     (case peek_interval tg tierIdx intervalIdx of Inl e \<Rightarrow> Inl e | Inr i \<Rightarrow> Inr (xmin i))"

definition get_end_point :: "textgrid \<Rightarrow> nat \<Rightarrow> nat \<Rightarrow> error + rat" where
  "get_end_point tg tierIdx intervalIdx =
     (case peek_interval tg tierIdx intervalIdx of Inl e \<Rightarrow> Inl e | Inr i \<Rightarrow> Inr (xmax i))"

fun time_to_index :: "interval list \<Rightarrow> nat \<Rightarrow> rat \<Rightarrow> nat" where
  "time_to_index [] n t = 0"
| "time_to_index (i # rest) n t =
     (if xmin i \<le> t \<and> t < xmax i then n else time_to_index rest (n + 1) t)"

definition get_interval_at_time :: "textgrid \<Rightarrow> nat \<Rightarrow> rat \<Rightarrow> error + nat" where
  "get_interval_at_time tg tierIdx t =
     (case peek_tier tg tierIdx of
        Inl e \<Rightarrow> Inl e
      | Inr tr \<Rightarrow> Inr (time_to_index (intervals tr) 1 t))"

subsection \<open>Parameters, collaborators and the accumulated state\<close>

text \<open>The parameter cell of the notebook.\<close>

record config =
  tg_path :: string
  wav_path :: string
  phones_tiers :: "string list"
  time_step :: rat
  maximum_number_of_formants :: nat
  maximum_formant :: rat
  window_length :: rat
  preemphasis_from :: rat
  segment_window :: rat

definition notebook_config :: config where
  "notebook_config =
     \<lparr>tg_path = ''data/'', wav_path = ''data/'', phones_tiers = [''phones''],
      time_step = 0.1, maximum_number_of_formants = 5, maximum_formant = 5500,
      window_length = 0.025, preemphasis_from = 50, segment_window = 0.005\<rparr>"

text \<open>
  The file system and the acoustic front end are parameters: \<open>'s\<close> is a sound, \<open>'f\<close> a
  formant object and \<open>'v\<close> whatever \<^verbatim>\<open>Get value at time\<close> answers (a frequency, or
  Praat's undefined value). The notebook always asks in Hertz with linear
  interpolation, so the query takes the formant object, the component and the time.
\<close>

record ('s, 'f, 'v) env =
  listdir :: "string \<Rightarrow> error + string list"
  path_exists :: "string \<Rightarrow> bool"
  Sound :: "string \<Rightarrow> error + 's"
  to_formant_burg :: "'s \<Rightarrow> rat \<Rightarrow> nat \<Rightarrow> rat \<Rightarrow> rat \<Rightarrow> rat \<Rightarrow> 'f"
  get_value_at_time :: "'f \<Rightarrow> nat \<Rightarrow> rat \<Rightarrow> 'v"
  Data_read :: "string \<Rightarrow> error + textgrid"

text \<open>One dictionary appended to \<^verbatim>\<open>data\<close>.\<close>

record 'v row =
  Video_ID :: string
  Vowel :: string
  Vowel_onset_time :: rat
  Time_of_formant_measurements :: rat
  Time_from_vowel_onset :: rat
  F1 :: 'v
  F2 :: 'v
  Participant :: string
  Task :: string
  Word :: string

datatype printed = Processing nat string | Done

record 'v state =
  st_data :: "'v row list"
  st_file_counter :: nat
  st_stdout :: "printed list"

subsection \<open>The loops\<close>

text \<open>
  A \<^verbatim>\<open>for\<close> loop whose body may raise: the loop stops at the first exception and keeps
  the state reached so far.
\<close>

fun for_loop :: "'i list \<Rightarrow> ('i \<Rightarrow> 'a \<Rightarrow> 'a \<times> error option) \<Rightarrow> 'a \<Rightarrow> 'a \<times> error option" where
  "for_loop [] body s = (s, None)"
| "for_loop (i # rest) body s =
     (case body i s of
        (s', None) \<Rightarrow> for_loop rest body s'
      | (s', Some e) \<Rightarrow> (s', Some e))"

text \<open>The body of the innermost loop up to the \<^verbatim>\<open>append\<close>: the dictionary built for
  one \<^verbatim>\<open>segmentIdx\<close>.\<close>

definition segment_row ::
  "config \<Rightarrow> ('s, 'f, 'v) env \<Rightarrow> string \<Rightarrow> 'f \<Rightarrow> string \<Rightarrow> rat \<Rightarrow> string \<Rightarrow> int \<Rightarrow> 'v row" where
  "segment_row cfg env file formant label start word segmentIdx =
     (let spot = start + (of_int segmentIdx * segment_window cfg);
          tim_int = spot - start;
          f1 = get_value_at_time env formant 1 spot;
          f2 = get_value_at_time env formant 2 spot
      in \<lparr>Video_ID = py_slice 0 (- 4) file,
          Vowel = take 1 label,
          Vowel_onset_time = start,
          Time_of_formant_measurements = spot,
          Time_from_vowel_onset = tim_int,
          F1 = f1,
          F2 = f2,
          Participant = py_slice 0 4 file,
          Task = py_slice 5 (- 4) file,
          Word = (if word \<noteq> [] then word else ''PROBLEM'')\<rparr>)"

text \<open>The innermost loop, over \<^verbatim>\<open>range(1, numSegments + 1)\<close>. Nothing in it can raise.\<close>

fun segment_loop ::
  "config \<Rightarrow> ('s, 'f, 'v) env \<Rightarrow> string \<Rightarrow> 'f \<Rightarrow> string \<Rightarrow> rat \<Rightarrow> string \<Rightarrow>
   int list \<Rightarrow> 'v row list \<Rightarrow> 'v row list" where
  "segment_loop cfg env file formant label start word [] data = data"
| "segment_loop cfg env file formant label start word (segmentIdx # rest) data =
     segment_loop cfg env file formant label start word rest
       (data @ [segment_row cfg env file formant label start word segmentIdx])"

text \<open>
  The block under the vowel test. The label is not empty there, so \<^verbatim>\<open>label[0]\<close> is
  its first character. Every query comes before the first \<^verbatim>\<open>append\<close>.
\<close>

definition vowel_block ::
  "config \<Rightarrow> ('s, 'f, 'v) env \<Rightarrow> string \<Rightarrow> 'f \<Rightarrow> textgrid \<Rightarrow> nat \<Rightarrow> nat \<Rightarrow> string \<Rightarrow>
   'v row list \<Rightarrow> 'v row list \<times> error option" where
  "vowel_block cfg env file formant tg tierIdx intervalIdx label data =
     (case get_starting_point tg tierIdx intervalIdx of
        Inl e \<Rightarrow> (data, Some e)
      | Inr start \<Rightarrow>
     (case get_end_point tg tierIdx intervalIdx of
        Inl e \<Rightarrow> (data, Some e)
      | Inr end_t \<Rightarrow>
     (let dur = end_t - start;
          word_tier_idx = 1;
          midpoint = (end_t + start) / 2
      in
     (case get_interval_at_time tg word_tier_idx midpoint of
        Inl e \<Rightarrow> (data, Some e)
      | Inr word_interval \<Rightarrow>
     (case get_label_of_interval tg word_tier_idx word_interval of
        Inl e \<Rightarrow> (data, Some e)
      | Inr word \<Rightarrow>
     (case py_div dur (segment_window cfg) of
        Inl e \<Rightarrow> (data, Some e)
      | Inr q \<Rightarrow>
     (let numSegments = py_int q
      in (segment_loop cfg env file formant label start word [1..numSegments] data,
          None))))))))"

definition interval_body ::
  "config \<Rightarrow> ('s, 'f, 'v) env \<Rightarrow> string \<Rightarrow> 'f \<Rightarrow> textgrid \<Rightarrow> nat \<Rightarrow> nat \<Rightarrow>
   'v row list \<Rightarrow> 'v row list \<times> error option" where
  "interval_body cfg env file formant tg tierIdx intervalIdx data =
     (case get_label_of_interval tg tierIdx intervalIdx of
        Inl e \<Rightarrow> (data, Some e)
      | Inr label \<Rightarrow>
          if label \<noteq> [] \<and> re_search vowel_pattern label
          then vowel_block cfg env file formant tg tierIdx intervalIdx label data
          else (data, None))"

definition tier_body ::
  "config \<Rightarrow> ('s, 'f, 'v) env \<Rightarrow> string \<Rightarrow> 'f \<Rightarrow> textgrid \<Rightarrow> nat \<Rightarrow>
   'v row list \<Rightarrow> 'v row list \<times> error option" where
  "tier_body cfg env file formant tg tierIdx data =
     (case get_tier_name tg tierIdx of
        Inl e \<Rightarrow> (data, Some e)
      | Inr tierName \<Rightarrow>
          if tierName \<in> set (phones_tiers cfg)
          then (case get_number_of_intervals tg tierIdx of
                  Inl e \<Rightarrow> (data, Some e)
                | Inr numIntervals \<Rightarrow>
                    for_loop [1..<numIntervals + 1]
                      (interval_body cfg env file formant tg tierIdx) data)
          else (data, None))"

definition file_body ::
  "config \<Rightarrow> ('s, 'f, 'v) env \<Rightarrow> string \<Rightarrow> 'v state \<Rightarrow> 'v state \<times> error option" where
  "file_body cfg env file st =
     (if endswith file ''.wav'' then
        if path_exists env (tg_path cfg @ py_slice 0 (- 4) file @ ''.TextGrid'') then
          (let st1 = st\<lparr>st_stdout := st_stdout st @ [Processing (st_file_counter st) file],
                        st_file_counter := st_file_counter st + 1\<rparr>
           in
          (case Sound env (wav_path cfg @ file) of
             Inl e \<Rightarrow> (st1, Some e)
           | Inr wav \<Rightarrow>
          (let formant = to_formant_burg env wav (time_step cfg)
                           (maximum_number_of_formants cfg) (maximum_formant cfg)
                           (window_length cfg) (preemphasis_from cfg)
           in
          (case Data_read env (tg_path cfg @ py_slice 0 (- 4) file @ ''.TextGrid'') of
             Inl e \<Rightarrow> (st1, Some e)
           | Inr tg \<Rightarrow>
          (let numTiers = get_number_of_tiers tg
           in
          (case for_loop [1..<numTiers + 1] (tier_body cfg env file formant tg) (st_data st1) of
             (d, err) \<Rightarrow> (st1\<lparr>st_data := d\<rparr>, err)))))))
        else (st, None)
      else (st, None))"

text \<open>The whole cell: the accumulator starts empty, and \<^verbatim>\<open>Done\<close> is printed when the
  loop has ended without an exception.\<close>

definition extract_formants :: "config \<Rightarrow> ('s, 'f, 'v) env \<Rightarrow> 'v state \<times> error option" where
  "extract_formants cfg env =
     (let st0 = \<lparr>st_data = [], st_file_counter = 1, st_stdout = []\<rparr>
      in
     (case listdir env (wav_path cfg) of
        Inl e \<Rightarrow> (st0, Some e)
      | Inr files \<Rightarrow>
     (case for_loop files (file_body cfg env) st0 of
        (st, None) \<Rightarrow> (st\<lparr>st_stdout := st_stdout st @ [Done]\<rparr>, None)
      | (st, Some e) \<Rightarrow> (st, Some e))))"

subsection \<open>A small corpus\<close>

text \<open>
  One recording with the word tier first and the phone tier second, as the aligner
  writes them; the times are binary fractions, so the floating-point computation of
  the source is exact on them. The front end of the example answers the component
  number and the time while the time is below 0.75, and nothing (Praat's undefined)
  from there on.
\<close>

definition demo_grid :: textgrid where
  "demo_grid =
     [\<lparr>tname = ''words'',
       intervals = [\<lparr>itext = ''no'', xmin = 0, xmax = 0.5\<rparr>,
                    \<lparr>itext = '''', xmin = 0.5, xmax = 1\<rparr>]\<rparr>,
      \<lparr>tname = ''phones'',
       intervals = [\<lparr>itext = ''n'', xmin = 0, xmax = 0.25\<rparr>,
                    \<lparr>itext = ''o+'', xmin = 0.25, xmax = 0.625\<rparr>,
                    \<lparr>itext = ''e12'', xmin = 0.625, xmax = 0.9375\<rparr>,
                    \<lparr>itext = ''a'', xmin = 0.9375, xmax = 1\<rparr>]\<rparr>]"

definition demo_env :: "(unit, unit, (nat \<times> rat) option) env" where
  "demo_env =
     \<lparr>listdir = (\<lambda>d. if d = ''data/'' then Inr [''notes.txt'', ''p113_int.wav'', ''p115_wd.wav'']
                      else Inl FileNotFoundError),
      path_exists = (\<lambda>p. p = ''data/p113_int.TextGrid''),
      Sound = (\<lambda>p. if p = ''data/p113_int.wav'' then Inr () else Inl PraatError),
      to_formant_burg = (\<lambda>s ts n mf wl pe. ()),
      get_value_at_time = (\<lambda>f k t. if t < 0.75 then Some (k, t) else None),
      Data_read = (\<lambda>p. if p = ''data/p113_int.TextGrid'' then Inr demo_grid
                        else Inl PraatError)\<rparr>"

definition demo_config :: config where
  "demo_config = notebook_config\<lparr>segment_window := 0.125\<rparr>"

text \<open>The state in which the cell starts.\<close>

definition demo_state :: "(nat \<times> rat) option state" where
  "demo_state = \<lparr>st_data = [], st_file_counter = 1, st_stdout = []\<rparr>"


definition comma_grid :: textgrid where
  "comma_grid =
     [\<lparr>tname = ''words'',
       intervals = [\<lparr>itext = ''si'', xmin = 0, xmax = 1\<rparr>]\<rparr>,
      \<lparr>tname = ''phones'',
       intervals = [\<lparr>itext = '','', xmin = 0, xmax = 0.25\<rparr>,
                    \<lparr>itext = ''s'', xmin = 0.25, xmax = 0.5\<rparr>,
                    \<lparr>itext = ''i'', xmin = 0.5, xmax = 1\<rparr>]\<rparr>]"

section \<open>Properties\<close>

subsection \<open>Slices and the pattern\<close>

lemma py_slice_prefix: "0 \<le> n \<Longrightarrow> py_slice 0 n s = take (nat n) s"
  by (simp add: py_slice_def py_bound_def Let_def min_def)

lemma py_slice_stem: "py_slice 0 (- 4) s = take (length s - 4) s"
  by (simp add: py_slice_def py_bound_def Let_def max_def nat_diff_distrib')

lemma py_slice_task: "py_slice 5 (- 4) s = drop 5 (take (length s - 4) s)"
  by (simp add: py_slice_def py_bound_def Let_def max_def min_def drop_take nat_diff_distrib')

lemma vowel_pattern_iff:
  "re_search vowel_pattern label \<longleftrightarrow> label \<noteq> [] \<and> hd label \<in> set ''a,e,i,o,u,j,w''"
proof (cases label)
  case Nil
  then show ?thesis by (simp add: re_search_def vowel_pattern_def)
next
  case (Cons c s)
  then show ?thesis by (cases s) (auto simp: re_search_def vowel_pattern_def)
qed

subsection \<open>The loops as list functions\<close>

lemma segment_loop_eq:
  "segment_loop cfg env file formant label start word ks data =
     data @ map (segment_row cfg env file formant label start word) ks"
  by (induction ks arbitrary: data) simp_all

lemma vowel_block_ok:
  assumes "get_starting_point tg tierIdx intervalIdx = Inr start"
    and "get_end_point tg tierIdx intervalIdx = Inr end_t"
    and "get_interval_at_time tg 1 ((end_t + start) / 2) = Inr word_interval"
    and "get_label_of_interval tg 1 word_interval = Inr word"
    and "segment_window cfg \<noteq> 0"
  shows "vowel_block cfg env file formant tg tierIdx intervalIdx label data =
           (data @ map (segment_row cfg env file formant label start word)
                     [1..py_int ((end_t - start) / segment_window cfg)], None)"
  using assms by (simp add: vowel_block_def py_div_def segment_loop_eq)

lemma segment_row_simps:
  "Video_ID (segment_row cfg env file formant label start word k) = py_slice 0 (- 4) file"
  "Vowel (segment_row cfg env file formant label start word k) = take 1 label"
  "Vowel_onset_time (segment_row cfg env file formant label start word k) = start"
  "Time_of_formant_measurements (segment_row cfg env file formant label start word k) =
     start + of_int k * segment_window cfg"
  "Time_from_vowel_onset (segment_row cfg env file formant label start word k) =
     start + of_int k * segment_window cfg - start"
  "F1 (segment_row cfg env file formant label start word k) =
     get_value_at_time env formant 1 (start + of_int k * segment_window cfg)"
  "F2 (segment_row cfg env file formant label start word k) =
     get_value_at_time env formant 2 (start + of_int k * segment_window cfg)"
  "Participant (segment_row cfg env file formant label start word k) = py_slice 0 4 file"
  "Task (segment_row cfg env file formant label start word k) = py_slice 5 (- 4) file"
  "Word (segment_row cfg env file formant label start word k) =
     (if word \<noteq> [] then word else ''PROBLEM'')"
  by (simp_all add: segment_row_def Let_def)



subsection \<open>The example corpus, evaluated\<close>

lemma demo_window: "segment_window demo_config = 1 / 8"
  by (simp add: demo_config_def notebook_config_def)

lemma demo_o_start: "get_starting_point demo_grid 2 2 = Inr (1 / 4)"
  by code_simp

lemma demo_o_end: "get_end_point demo_grid 2 2 = Inr (5 / 8)"
  by code_simp

lemma demo_o_word_interval: "get_interval_at_time demo_grid 1 ((5 / 8 + 1 / 4) / 2) = Inr 1"
  by code_simp

lemma demo_word_1: "get_label_of_interval demo_grid 1 1 = Inr ''no''"
  by code_simp


subsection \<open>Segment counts and sample times\<close>





subsection \<open>Rows appended by the vowel block\<close>

lemma vowel_block_rows:
  assumes "\<And>start word k. P (segment_row cfg env file formant label start word k)"
  shows "\<exists>rows. fst (vowel_block cfg env file formant tg tierIdx intervalIdx label data) = data @ rows
           \<and> list_all P rows"
proof -
  have e: "data = data @ [] \<and> list_all P []" by simp
  have m: "list_all P (map (segment_row cfg env file formant label start word) ks)" for start word ks
    using assms by (simp add: list_all_iff)
  show ?thesis
    unfolding vowel_block_def Let_def segment_loop_eq
    by (auto split: sum.splits intro: m)
qed

subsection \<open>The vowel filter\<close>

text \<open>
  C1. The claim is that a label passes the filter exactly when it starts with one of the
  seven letters a, e, i, o, u, j, w, as the comment above the test says. The character
  set of the pattern also holds the comma (see \<open>vowel_pattern_iff\<close>), so a phone interval
  labelled with a comma passes the filter and is sampled like a vowel.
\<close>

theorem comma_label_accepted:
  "re_search vowel_pattern '',''
   \<and> map Vowel (fst (interval_body demo_config demo_env ''p113_int.wav'' () comma_grid 2 1 [])) = ['','', '','']
   \<and> snd (interval_body demo_config demo_env ''p113_int.wav'' () comma_grid 2 1 []) = None"
  by code_simp

text \<open>
  C6. For a label that passes the filter, the interval is handed to the vowel block and
  every row appended for it carries the first character of the label as its vowel: the
  plus sign and whatever follows are dropped.
\<close>

theorem vowel_label_first_char:
  assumes label: "get_label_of_interval tg tierIdx intervalIdx = Inr label"
    and vowel: "label \<noteq> [] \<and> re_search vowel_pattern label"
  shows "interval_body cfg env file formant tg tierIdx intervalIdx data =
           vowel_block cfg env file formant tg tierIdx intervalIdx label data
       \<and> (\<exists>rows. fst (interval_body cfg env file formant tg tierIdx intervalIdx data) = data @ rows
             \<and> (\<forall>r \<in> set rows. Vowel r = [hd label]))"
proof -
  have body: "interval_body cfg env file formant tg tierIdx intervalIdx data =
           vowel_block cfg env file formant tg tierIdx intervalIdx label data"
    using label vowel by (simp add: interval_body_def)
  have first: "take (Suc 0) label = [hd label]" using vowel by (cases label) simp_all
  have "\<exists>rows. fst (vowel_block cfg env file formant tg tierIdx intervalIdx label data) = data @ rows
           \<and> list_all (\<lambda>r. Vowel r = [hd label]) rows"
    by (rule vowel_block_rows) (simp add: segment_row_simps first)
  then show ?thesis using body by (simp add: list_all_iff)
qed

theorem vowel_label_first_char_witness:
  "list_all (\<lambda>r. Vowel r = ''o'')
     (fst (interval_body demo_config demo_env ''p113_int.wav'' () demo_grid 2 2 []))
   \<and> length (fst (interval_body demo_config demo_env ''p113_int.wav'' () demo_grid 2 2 [])) = 3
   \<and> list_all (\<lambda>r. Vowel r = ''e'')
     (fst (interval_body demo_config demo_env ''p113_int.wav'' () demo_grid 2 3 []))
   \<and> length (fst (interval_body demo_config demo_env ''p113_int.wav'' () demo_grid 2 3 [])) = 2"
proof -
  have l2: "get_label_of_interval demo_grid 2 2 = Inr ''o+''" by code_simp
  have v2: "''o+'' \<noteq> [] \<and> re_search vowel_pattern ''o+''" by code_simp
  have a: "list_all (\<lambda>r. Vowel r = ''o'')
     (fst (interval_body demo_config demo_env ''p113_int.wav'' () demo_grid 2 2 []))"
    using vowel_label_first_char[OF l2 v2, of demo_config demo_env "''p113_int.wav''" "()" "[]"]
    by (auto simp: list_all_iff)
  have l3: "get_label_of_interval demo_grid 2 3 = Inr ''e12''" by code_simp
  have v3: "''e12'' \<noteq> [] \<and> re_search vowel_pattern ''e12''" by code_simp
  have b: "list_all (\<lambda>r. Vowel r = ''e'')
     (fst (interval_body demo_config demo_env ''p113_int.wav'' () demo_grid 2 3 []))"
    using vowel_label_first_char[OF l3 v3, of demo_config demo_env "''p113_int.wav''" "()" "[]"]
    by (auto simp: list_all_iff)
  have c: "length (fst (interval_body demo_config demo_env ''p113_int.wav'' () demo_grid 2 2 [])) = 3"
    by code_simp
  have d: "length (fst (interval_body demo_config demo_env ''p113_int.wav'' () demo_grid 2 3 [])) = 2"
    by code_simp
  from a b c d show ?thesis by simp
qed

subsection \<open>The word of a token\<close>

lemma time_to_index_cases:
  "1 \<le> n \<Longrightarrow>
   (time_to_index xs n t = 0 \<and> list_all (\<lambda>i. \<not> (xmin i \<le> t \<and> t < xmax i)) xs)
   \<or> (n \<le> time_to_index xs n t \<and> time_to_index xs n t < n + length xs
       \<and> xmin (xs ! (time_to_index xs n t - n)) \<le> t
       \<and> t < xmax (xs ! (time_to_index xs n t - n)))"
proof (induction xs arbitrary: n)
  case Nil
  then show ?case by simp
next
  case (Cons i xs)
  show ?case
  proof (cases "xmin i \<le> t \<and> t < xmax i")
    case True
    then show ?thesis by simp
  next
    case False
    have "1 \<le> n + 1" by simp
    from Cons.IH[OF this] False show ?thesis
      by (auto simp: nth_Cons' Suc_diff_le)
  qed
qed

lemma starting_point_nonempty: "get_starting_point tg tierIdx intervalIdx = Inr start \<Longrightarrow> tg \<noteq> []"
  by (auto simp: get_starting_point_def peek_interval_def peek_tier_def split: sum.splits if_splits)

lemma word_tier_lookup:
  "tg \<noteq> [] \<Longrightarrow> get_interval_at_time tg 1 t = Inr (time_to_index (intervals (hd tg)) 1 t)"
  by (cases tg) (simp_all add: get_interval_at_time_def peek_tier_def)

lemma word_tier_label:
  "tg \<noteq> [] \<Longrightarrow> get_label_of_interval tg 1 wi =
     (if 1 \<le> wi \<and> wi \<le> length (intervals (hd tg)) then Inr (itext (intervals (hd tg) ! (wi - 1)))
      else Inl PraatError)"
  by (cases tg) (simp_all add: get_label_of_interval_def peek_interval_def peek_tier_def)


lemma vowel_block_first_tier:
  assumes start: "get_starting_point tg tierIdx intervalIdx = Inr start"
    and end_t: "get_end_point tg tierIdx intervalIdx = Inr end_t"
    and w: "segment_window cfg \<noteq> 0"
    and wi: "wi = time_to_index (intervals (hd tg)) 1 ((end_t + start) / 2)"
    and pos: "1 \<le> wi"
  shows "wi \<le> length (intervals (hd tg))"
    and "xmin (intervals (hd tg) ! (wi - 1)) \<le> (end_t + start) / 2"
    and "(end_t + start) / 2 < xmax (intervals (hd tg) ! (wi - 1))"
    and "vowel_block cfg env file formant tg tierIdx intervalIdx label data =
           (data @ map (segment_row cfg env file formant label start
                          (itext (intervals (hd tg) ! (wi - 1))))
                     [1..py_int ((end_t - start) / segment_window cfg)], None)"
proof -
  have tg: "tg \<noteq> []" using start by (rule starting_point_nonempty)
  have look: "get_interval_at_time tg 1 ((end_t + start) / 2) = Inr wi"
    using word_tier_lookup[OF tg] by (simp add: wi)
  have "1 \<le> wi \<and> wi < 1 + length (intervals (hd tg))
      \<and> xmin (intervals (hd tg) ! (wi - 1)) \<le> (end_t + start) / 2
      \<and> (end_t + start) / 2 < xmax (intervals (hd tg) ! (wi - 1))"
    using time_to_index_cases[of 1 "intervals (hd tg)" "(end_t + start) / 2"] pos
    by (auto simp: wi)
  then show in_range: "wi \<le> length (intervals (hd tg))"
    and "xmin (intervals (hd tg) ! (wi - 1)) \<le> (end_t + start) / 2"
    and "(end_t + start) / 2 < xmax (intervals (hd tg) ! (wi - 1))"
    by simp_all
  have lab: "get_label_of_interval tg 1 wi = Inr (itext (intervals (hd tg) ! (wi - 1)))"
    using word_tier_label[OF tg, of wi] pos in_range by simp
  show "vowel_block cfg env file formant tg tierIdx intervalIdx label data =
           (data @ map (segment_row cfg env file formant label start
                          (itext (intervals (hd tg) ! (wi - 1))))
                     [1..py_int ((end_t - start) / segment_window cfg)], None)"
    by (rule vowel_block_ok[OF start end_t look lab w])
qed




lemma rename_peek_tier:
  "peek_tier (map (\<lambda>t. t\<lparr>tname := rename t\<rparr>) tg) i =
     (case peek_tier tg i of Inl e \<Rightarrow> Inl e | Inr t \<Rightarrow> Inr (t\<lparr>tname := rename t\<rparr>))"
proof (cases "1 \<le> i \<and> i \<le> length tg")
  case True
  then have "i - 1 < length tg" by arith
  then show ?thesis using True by (simp add: peek_tier_def)
next
  case False
  then show ?thesis by (auto simp: peek_tier_def)
qed

lemma rename_peek_interval:
  "peek_interval (map (\<lambda>t. t\<lparr>tname := rename t\<rparr>) tg) i j = peek_interval tg i j"
  by (cases "peek_tier tg i") (simp_all add: peek_interval_def rename_peek_tier)

lemma rename_queries:
  "get_starting_point (map (\<lambda>t. t\<lparr>tname := rename t\<rparr>) tg) i j = get_starting_point tg i j"
  "get_end_point (map (\<lambda>t. t\<lparr>tname := rename t\<rparr>) tg) i j = get_end_point tg i j"
  "get_label_of_interval (map (\<lambda>t. t\<lparr>tname := rename t\<rparr>) tg) i j = get_label_of_interval tg i j"
  by (simp_all add: get_starting_point_def get_end_point_def get_label_of_interval_def
      rename_peek_interval)

lemma rename_interval_at_time:
  "get_interval_at_time (map (\<lambda>t. t\<lparr>tname := rename t\<rparr>) tg) i x = get_interval_at_time tg i x"
  by (cases "peek_tier tg i") (simp_all add: get_interval_at_time_def rename_peek_tier)

lemma segment_row_phones:
  "segment_row (cfg\<lparr>phones_tiers := ps\<rparr>) env file formant label start word =
   segment_row cfg env file formant label start word"
  by (rule ext) (simp add: segment_row_def)

lemma vowel_block_names:
  "vowel_block (cfg\<lparr>phones_tiers := ps\<rparr>) env file formant (map (\<lambda>t. t\<lparr>tname := rename t\<rparr>) tg)
     tierIdx intervalIdx label data =
   vowel_block cfg env file formant tg tierIdx intervalIdx label data"
  by (simp add: vowel_block_def rename_queries rename_interval_at_time segment_loop_eq
      segment_row_phones cong: sum.case_cong)

text \<open>
  C5. The word of a token is read from the tier at position 1, whatever the tiers are
  called and whichever tier names are configured as phone tiers: renaming every tier and
  replacing \<^verbatim>\<open>phones_tiers\<close> leaves the outcome of the vowel block unchanged, and the
  word of its rows is the label found on the head of the grid.
\<close>

theorem word_tier_positional:
  assumes start: "get_starting_point tg tierIdx intervalIdx = Inr start"
    and end_t: "get_end_point tg tierIdx intervalIdx = Inr end_t"
    and w: "segment_window cfg \<noteq> 0"
    and wi: "wi = time_to_index (intervals (hd tg)) 1 ((end_t + start) / 2)"
    and pos: "1 \<le> wi"
  shows "(\<forall>rename ps. vowel_block (cfg\<lparr>phones_tiers := ps\<rparr>) env file formant
                          (map (\<lambda>t. t\<lparr>tname := rename t\<rparr>) tg) tierIdx intervalIdx label data
                        = vowel_block cfg env file formant tg tierIdx intervalIdx label data)
       \<and> (\<exists>rows. vowel_block cfg env file formant tg tierIdx intervalIdx label data = (data @ rows, None)
             \<and> int (length rows) = max 0 (py_int ((end_t - start) / segment_window cfg))
             \<and> (\<forall>r \<in> set rows. Word r = (if itext (intervals (hd tg) ! (wi - 1)) \<noteq> []
                                            then itext (intervals (hd tg) ! (wi - 1)) else ''PROBLEM'')))"
proof -
  define rows where "rows = map (segment_row cfg env file formant label start
                                   (itext (intervals (hd tg) ! (wi - 1))))
                               [1..py_int ((end_t - start) / segment_window cfg)]"
  have blk: "vowel_block cfg env file formant tg tierIdx intervalIdx label data = (data @ rows, None)"
    unfolding rows_def by (rule vowel_block_first_tier(4)[OF start end_t w wi pos])
  have len: "int (length rows) = max 0 (py_int ((end_t - start) / segment_window cfg))"
    by (simp add: rows_def)
  have lab: "\<forall>r \<in> set rows. Word r = (if itext (intervals (hd tg) ! (wi - 1)) \<noteq> []
                                        then itext (intervals (hd tg) ! (wi - 1)) else ''PROBLEM'')"
    by (auto simp: rows_def segment_row_simps)
  have "\<forall>rename ps. vowel_block (cfg\<lparr>phones_tiers := ps\<rparr>) env file formant
                           (map (\<lambda>t. t\<lparr>tname := rename t\<rparr>) tg) tierIdx intervalIdx label data
                         = vowel_block cfg env file formant tg tierIdx intervalIdx label data"
    by (simp add: vowel_block_names)
  with blk len lab show ?thesis by blast
qed

theorem word_tier_positional_witness:
  "list_all (\<lambda>r. Word r = ''o+'')
     (fst (vowel_block (demo_config\<lparr>phones_tiers := []\<rparr>) demo_env ''p113_int.wav'' ()
            (map (\<lambda>t. t\<lparr>tname := ''x''\<rparr>) (rev demo_grid)) 1 2 ''o+'' []))
   \<and> length
     (fst (vowel_block (demo_config\<lparr>phones_tiers := []\<rparr>) demo_env ''p113_int.wav'' ()
            (map (\<lambda>t. t\<lparr>tname := ''x''\<rparr>) (rev demo_grid)) 1 2 ''o+'' [])) = 3"
proof -
  have w: "segment_window demo_config \<noteq> 0" by (simp add: demo_window)
  have s: "get_starting_point (rev demo_grid) 1 2 = Inr (1 / 4)" by code_simp
  have e: "get_end_point (rev demo_grid) 1 2 = Inr (5 / 8)" by code_simp
  have phones: "intervals (hd (rev demo_grid)) =
      [\<lparr>itext = ''n'', xmin = 0, xmax = 0.25\<rparr>, \<lparr>itext = ''o+'', xmin = 0.25, xmax = 0.625\<rparr>,
       \<lparr>itext = ''e12'', xmin = 0.625, xmax = 0.9375\<rparr>, \<lparr>itext = ''a'', xmin = 0.9375, xmax = 1\<rparr>]"
    by (simp add: demo_grid_def)
  have wi: "2 = time_to_index (intervals (hd (rev demo_grid))) 1 ((5 / 8 + 1 / 4) / 2)"
    by (simp add: phones)
  have pos: "(1::nat) \<le> 2" by simp
  note th = word_tier_positional[OF s e w wi pos, of demo_env "''p113_int.wav''" "()" "''o+''" "[]"]
  have inv: "vowel_block (demo_config\<lparr>phones_tiers := []\<rparr>) demo_env ''p113_int.wav'' ()
          (map (\<lambda>t. t\<lparr>tname := ''x''\<rparr>) (rev demo_grid)) 1 2 ''o+'' [] =
        vowel_block demo_config demo_env ''p113_int.wav'' () (rev demo_grid) 1 2 ''o+'' []"
    using conjunct1[OF th, rule_format, where rename = "\<lambda>t. ''x''" and ps = "[]"] by simp
  from th obtain rows where
    blk: "vowel_block demo_config demo_env ''p113_int.wav'' () (rev demo_grid) 1 2 ''o+'' [] = ([] @ rows, None)"
    and len: "int (length rows) = max 0 (py_int ((5 / 8 - 1 / 4) / segment_window demo_config))"
    and lab: "\<forall>r \<in> set rows. Word r = (if itext (intervals (hd (rev demo_grid)) ! (2 - 1)) \<noteq> []
                           then itext (intervals (hd (rev demo_grid)) ! (2 - 1)) else ''PROBLEM'')"
    by blast
  have "vowel_block (demo_config\<lparr>phones_tiers := []\<rparr>) demo_env ''p113_int.wav'' ()
          (map (\<lambda>t. t\<lparr>tname := ''x''\<rparr>) (rev demo_grid)) 1 2 ''o+'' [] = (rows, None)"
    using inv blk by simp
  moreover have "length rows = 3" using len by (simp add: demo_window py_int_def)
  moreover have "list_all (\<lambda>r. Word r = ''o+'') rows"
    using lab by (simp add: phones list_all_iff)
  ultimately show ?thesis by simp
qed

text \<open>
  C10. The word, the vowel and the onset are fixed before the segment loop starts, so
  all rows of one token agree on them, also when the sample times lie in different
  intervals of the word tier.
\<close>

theorem token_fields_constant:
  assumes start: "get_starting_point tg tierIdx intervalIdx = Inr start"
    and end_t: "get_end_point tg tierIdx intervalIdx = Inr end_t"
    and word_interval: "get_interval_at_time tg 1 ((end_t + start) / 2) = Inr word_interval"
    and word: "get_label_of_interval tg 1 word_interval = Inr word"
    and w: "segment_window cfg \<noteq> 0"
  shows "\<exists>rows. vowel_block cfg env file formant tg tierIdx intervalIdx label data = (data @ rows, None)
           \<and> int (length rows) = max 0 (py_int ((end_t - start) / segment_window cfg))
           \<and> (\<forall>r \<in> set rows. Word r = (if word \<noteq> [] then word else ''PROBLEM'')
                              \<and> Vowel r = take 1 label
                              \<and> Vowel_onset_time r = start)"
proof -
  define rows where "rows = map (segment_row cfg env file formant label start word)
                               [1..py_int ((end_t - start) / segment_window cfg)]"
  have "vowel_block cfg env file formant tg tierIdx intervalIdx label data = (data @ rows, None)"
    unfolding rows_def by (rule vowel_block_ok[OF start end_t word_interval word w])
  moreover have "int (length rows) = max 0 (py_int ((end_t - start) / segment_window cfg))"
    by (simp add: rows_def)
  moreover have "\<forall>r \<in> set rows. Word r = (if word \<noteq> [] then word else ''PROBLEM'')
                              \<and> Vowel r = take 1 label
                              \<and> Vowel_onset_time r = start"
    by (auto simp: rows_def segment_row_simps)
  ultimately show ?thesis by blast
qed

theorem token_fields_constant_witness:
  "list_all (\<lambda>r. Word r = ''no'' \<and> Vowel r = ''o'' \<and> Vowel_onset_time r = 1 / 4)
     (fst (vowel_block demo_config demo_env ''p113_int.wav'' () demo_grid 2 2 ''o+'' []))
   \<and> map (\<lambda>r. get_interval_at_time demo_grid 1 (Time_of_formant_measurements r))
     (fst (vowel_block demo_config demo_env ''p113_int.wav'' () demo_grid 2 2 ''o+'' [])) =
     [Inr 1, Inr 2, Inr 2]"
proof -
  have w: "segment_window demo_config \<noteq> 0" by (simp add: demo_window)
  have a: "list_all (\<lambda>r. Word r = ''no'' \<and> Vowel r = ''o'' \<and> Vowel_onset_time r = 1 / 4)
     (fst (vowel_block demo_config demo_env ''p113_int.wav'' () demo_grid 2 2 ''o+'' []))"
    using token_fields_constant[OF demo_o_start demo_o_end demo_o_word_interval demo_word_1 w,
        of demo_env "''p113_int.wav''" "()" "''o+''" "[]"]
    by (auto simp: list_all_iff)
  have b: "map (\<lambda>r. get_interval_at_time demo_grid 1 (Time_of_formant_measurements r))
     (fst (vowel_block demo_config demo_env ''p113_int.wav'' () demo_grid 2 2 ''o+'' [])) =
     [Inr 1, Inr 2, Inr 2]"
    by code_simp
  from a b show ?thesis by simp
qed

subsection \<open>Rows appended for one file\<close>

lemma for_loop_rows:
  assumes "\<And>i d. \<exists>rows. fst (body i d) = d @ rows \<and> list_all P rows"
  shows "\<exists>rows. fst (for_loop xs body d) = d @ rows \<and> list_all P rows"
proof (induction xs arbitrary: d)
  case Nil
  show ?case by simp
next
  case (Cons i xs)
  obtain rows1 where r1: "fst (body i d) = d @ rows1" "list_all P rows1"
    using assms by blast
  obtain d' err where b: "body i d = (d', err)" by (cases "body i d")
  show ?case
  proof (cases err)
    case None
    obtain rows2 where r2: "fst (for_loop xs body d') = d' @ rows2" "list_all P rows2"
      using Cons.IH by blast
    have "fst (for_loop (i # xs) body d) = d @ (rows1 @ rows2)"
      using b None r1 r2 by simp
    moreover have "list_all P (rows1 @ rows2)" using r1 r2 by simp
    ultimately show ?thesis by blast
  next
    case (Some e)
    then have "fst (for_loop (i # xs) body d) = d @ rows1" using b r1 by simp
    with r1 show ?thesis by blast
  qed
qed

lemma interval_body_rows:
  assumes "\<And>label start word k. P (segment_row cfg env file formant label start word k)"
  shows "\<exists>rows. fst (interval_body cfg env file formant tg tierIdx intervalIdx data) = data @ rows
           \<and> list_all P rows"
proof (cases "get_label_of_interval tg tierIdx intervalIdx")
  case (Inl e)
  then show ?thesis by (simp add: interval_body_def)
next
  case (Inr label)
  show ?thesis
  proof (cases "label \<noteq> [] \<and> re_search vowel_pattern label")
    case True
    have "\<exists>rows. fst (vowel_block cfg env file formant tg tierIdx intervalIdx label data) = data @ rows
           \<and> list_all P rows"
      by (rule vowel_block_rows) (rule assms)
    then show ?thesis using Inr True by (simp add: interval_body_def)
  next
    case False
    then show ?thesis using Inr by (auto simp: interval_body_def)
  qed
qed

lemma tier_body_rows:
  assumes "\<And>label start word k. P (segment_row cfg env file formant label start word k)"
  shows "\<exists>rows. fst (tier_body cfg env file formant tg tierIdx data) = data @ rows \<and> list_all P rows"
proof -
  have e: "\<exists>rows. data = data @ rows \<and> list_all P rows" by simp
  have loop: "\<exists>rows. fst (for_loop xs (interval_body cfg env file formant tg tierIdx) data) = data @ rows
      \<and> list_all P rows" for xs
    by (rule for_loop_rows) (rule interval_body_rows, rule assms)
  show ?thesis
    unfolding tier_body_def using e loop by (auto split: sum.splits)
qed

lemma file_body_rows:
  assumes "\<And>wav label start word k.
      endswith file ''.wav'' \<Longrightarrow> Sound env (wav_path cfg @ file) = Inr wav \<Longrightarrow>
      P (segment_row cfg env file
           (to_formant_burg env wav (time_step cfg) (maximum_number_of_formants cfg)
              (maximum_formant cfg) (window_length cfg) (preemphasis_from cfg))
           label start word k)"
  shows "\<exists>rows. st_data (fst (file_body cfg env file st)) = st_data st @ rows \<and> list_all P rows"
proof -
  have loop: "\<exists>rows. fst (for_loop xs (tier_body cfg env file
           (to_formant_burg env wav (time_step cfg) (maximum_number_of_formants cfg)
              (maximum_formant cfg) (window_length cfg) (preemphasis_from cfg)) tg) d) = d @ rows
      \<and> list_all P rows"
    if "endswith file ''.wav''" "Sound env (wav_path cfg @ file) = Inr wav" for xs wav tg d
    by (rule for_loop_rows) (rule tier_body_rows, rule assms[OF that])
  show ?thesis
  proof (cases "endswith file ''.wav'' \<and> path_exists env (tg_path cfg @ py_slice 0 (- 4) file @ ''.TextGrid'')")
    case False
    then show ?thesis by (auto simp: file_body_def)
  next
    case True
    show ?thesis
    proof (cases "Sound env (wav_path cfg @ file)")
      case (Inl e)
      then show ?thesis using True by (simp add: file_body_def)
    next
      case (Inr wav)
      show ?thesis
      proof (cases "Data_read env (tg_path cfg @ py_slice 0 (- 4) file @ ''.TextGrid'')")
        case (Inl e)
        then show ?thesis using True Inr by (simp add: file_body_def)
      next
        case tg: (Inr tg)
        from True Inr have "endswith file ''.wav''" "Sound env (wav_path cfg @ file) = Inr wav" by simp_all
        from loop[OF this, of "[1..<get_number_of_tiers tg + 1]" tg "st_data st"]
        show ?thesis using True Inr tg by (auto simp: file_body_def Let_def split: prod.splits)
      qed
    qed
  qed
qed

lemma endswith_stem: "endswith file ext \<Longrightarrow> file = take (length file - length ext) file @ ext"
  by (metis append_take_drop_id endswith_def)

text \<open>
  C9. Every row appended for a file carries the first four characters of the file name
  as participant and the stem without its first five characters as task. The stem is
  the file name without \<^verbatim>\<open>.wav\<close>; when it has at least five characters it is the
  participant, the character at index 4 and the task put together, so that character is
  in neither field, and when it has at most five characters the task is empty.
\<close>

theorem participant_and_task:
  fixes env :: "('s, 'f, 'v) env" and st :: "'v state"
  shows "\<exists>rows. st_data (fst (file_body cfg env file st)) = st_data st @ rows
     \<and> (\<forall>r \<in> set rows. Participant r = take 4 file
          \<and> (\<exists>stem. file = stem @ ''.wav'' \<and> Task r = drop 5 stem
                \<and> (5 \<le> length stem \<longrightarrow> stem = Participant r @ [file ! 4] @ Task r)
                \<and> (length stem \<le> 5 \<longrightarrow> Task r = [])))"
proof -
  define P :: "'v row \<Rightarrow> bool" where
    "P = (\<lambda>r. Participant r = take 4 file
          \<and> (\<exists>stem. file = stem @ ''.wav'' \<and> Task r = drop 5 stem
                \<and> (5 \<le> length stem \<longrightarrow> stem = Participant r @ [file ! 4] @ Task r)
                \<and> (length stem \<le> 5 \<longrightarrow> Task r = [])))"
  have row: "P (segment_row cfg env file formant label start word k)"
    if wav: "endswith file ''.wav''" for formant :: 'f and label start word k
  proof -
    define stem where "stem = take (length file - 4) file"
    have "length ''.wav'' = 4" by simp
    then have whole: "file = stem @ ''.wav''"
      using endswith_stem[OF wav] unfolding stem_def by (simp only:)
    have part: "Participant (segment_row cfg env file formant label start word k) = take 4 file"
      by (simp add: segment_row_simps py_slice_prefix)
    have task: "Task (segment_row cfg env file formant label start word k) = drop 5 stem"
      by (simp add: segment_row_simps py_slice_task stem_def)
    have split: "stem = take 4 file @ [file ! 4] @ drop 5 stem" if "5 \<le> length stem"
    proof -
      have "4 < length stem" using that by simp
      then have "stem = take 4 stem @ stem ! 4 # drop (Suc 4) stem" by (rule id_take_nth_drop)
      moreover have "take 4 stem = take 4 file" using that by (subst whole) simp
      moreover have "file ! 4 = (stem @ ''.wav'') ! 4" by (subst whole) (rule refl)
      then have "stem ! 4 = file ! 4" using \<open>4 < length stem\<close> by (simp add: nth_append)
      ultimately show ?thesis by simp
    qed
    show ?thesis unfolding P_def using whole part task split by auto
  qed
  have "\<exists>rows. st_data (fst (file_body cfg env file st)) = st_data st @ rows \<and> list_all P rows"
    by (rule file_body_rows) (rule row)
  then show ?thesis by (simp add: P_def list_all_iff)
qed

theorem participant_and_task_witness:
  "list_all (\<lambda>r. Participant r = ''p113'' \<and> Task r = ''int'')
     (st_data (fst (file_body demo_config demo_env ''p113_int.wav'' demo_state)))
   \<and> length (st_data (fst (file_body demo_config demo_env ''p113_int.wav'' demo_state))) = 5"
proof -
  have stem: "stem = ''p113_int''" if "''p113_int.wav'' = stem @ ''.wav''" for stem
    using that by (simp add: append_eq_conv_conj)
  have a: "list_all (\<lambda>r. Participant r = ''p113'' \<and> Task r = ''int'')
     (st_data (fst (file_body demo_config demo_env ''p113_int.wav'' demo_state)))"
    using participant_and_task[of demo_config demo_env "''p113_int.wav''" demo_state]
    by (auto simp: list_all_iff demo_state_def dest!: stem)
  have b: "length (st_data (fst (file_body demo_config demo_env ''p113_int.wav'' demo_state))) = 5"
    by code_simp
  from a b show ?thesis by simp
qed

subsection \<open>File pairing\<close>

text \<open>
  C8. A directory entry that does not end in \<^verbatim>\<open>.wav\<close>, or whose TextGrid does not
  exist, leaves the state as it is (no row, nothing printed, counter unchanged) and
  raises nothing; the loop over the directory is the loop over the paired files alone,
  in the order of the listing.
\<close>

theorem unpaired_files_skipped:
  fixes env :: "('s, 'f, 'v) env" and st :: "'v state"
  shows "(\<not> (endswith file ''.wav''
        \<and> path_exists env (tg_path cfg @ py_slice 0 (- 4) file @ ''.TextGrid''))
      \<longrightarrow> file_body cfg env file st = (st, None))
   \<and> for_loop files (file_body cfg env) st =
       for_loop (filter (\<lambda>f. endswith f ''.wav''
                   \<and> path_exists env (tg_path cfg @ py_slice 0 (- 4) f @ ''.TextGrid'')) files)
         (file_body cfg env) st"
proof -
  have skip: "file_body cfg env f s = (s, None)"
    if "\<not> (endswith f ''.wav'' \<and> path_exists env (tg_path cfg @ py_slice 0 (- 4) f @ ''.TextGrid''))"
    for f and s :: "'v state"
    using that by (auto simp: file_body_def)
  have "for_loop files (file_body cfg env) s =
       for_loop (filter (\<lambda>f. endswith f ''.wav''
                   \<and> path_exists env (tg_path cfg @ py_slice 0 (- 4) f @ ''.TextGrid'')) files)
         (file_body cfg env) s" for s
  proof (induction files arbitrary: s)
    case Nil
    show ?case by simp
  next
    case (Cons f files)
    show ?case
    proof (cases "endswith f ''.wav'' \<and> path_exists env (tg_path cfg @ py_slice 0 (- 4) f @ ''.TextGrid'')")
      case True
      then show ?thesis using Cons.IH by (simp split: prod.splits option.splits)
    next
      case False
      then show ?thesis using Cons.IH skip[OF False] by simp
    qed
  qed
  with skip show ?thesis by blast
qed

theorem unpaired_files_skipped_witness:
  "file_body demo_config demo_env ''p115_wd.wav'' demo_state = (demo_state, None)
   \<and> for_loop [''notes.txt'', ''p113_int.wav'', ''p115_wd.wav''] (file_body demo_config demo_env) demo_state
     = for_loop [''p113_int.wav''] (file_body demo_config demo_env) demo_state
   \<and> endswith ''p115_wd.wav'' ''.wav''
   \<and> Sound demo_env (wav_path demo_config @ ''p115_wd.wav'') = Inl PraatError"
proof -
  have unpaired: "\<not> (endswith ''p115_wd.wav'' ''.wav''
        \<and> path_exists demo_env (tg_path demo_config @ py_slice 0 (- 4) ''p115_wd.wav'' @ ''.TextGrid''))"
    by code_simp
  have listing: "filter (\<lambda>f. endswith f ''.wav''
        \<and> path_exists demo_env (tg_path demo_config @ py_slice 0 (- 4) f @ ''.TextGrid''))
        [''notes.txt'', ''p113_int.wav'', ''p115_wd.wav''] = [''p113_int.wav'']"
    by code_simp
  have a: "file_body demo_config demo_env ''p115_wd.wav'' demo_state = (demo_state, None)"
    using unpaired_files_skipped[of "''p115_wd.wav''" demo_env demo_config demo_state "[]"] unpaired
    by blast
  have b: "for_loop [''notes.txt'', ''p113_int.wav'', ''p115_wd.wav''] (file_body demo_config demo_env) demo_state
     = for_loop [''p113_int.wav''] (file_body demo_config demo_env) demo_state"
    using unpaired_files_skipped[of "''p115_wd.wav''" demo_env demo_config demo_state
        "[''notes.txt'', ''p113_int.wav'', ''p115_wd.wav'']"]
    by (simp only: listing)
  have c: "endswith ''p115_wd.wav'' ''.wav''" by code_simp
  have d: "Sound demo_env (wav_path demo_config @ ''p115_wd.wav'') = Inl PraatError" by code_simp
  from a b c d show ?thesis by simp
qed

subsection \<open>Formant values\<close>

lemma for_loop_rel:
  assumes step: "\<And>i d d'. R d d' \<Longrightarrow>
      R (fst (body i d)) (fst (body' i d')) \<and> snd (body i d) = snd (body' i d')"
    and init: "R d d'"
  shows "R (fst (for_loop xs body d)) (fst (for_loop xs body' d'))
       \<and> snd (for_loop xs body d) = snd (for_loop xs body' d')"
  using init
proof (induction xs arbitrary: d d')
  case Nil
  then show ?case by simp
next
  case (Cons i xs)
  obtain d1 e1 where b: "body i d = (d1, e1)" by (cases "body i d")
  obtain d1' e1' where b': "body' i d' = (d1', e1')" by (cases "body' i d'")
  from step[OF Cons.prems, of i] b b' have r1: "R d1 d1'" and e: "e1 = e1'" by simp_all
  show ?case
  proof (cases e1)
    case None
    then show ?thesis using b b' e Cons.IH[OF r1] by simp
  next
    case (Some err)
    then show ?thesis using b b' e r1 by simp
  qed
qed

lemma segment_row_other_values:
  "segment_row cfg (env\<lparr>get_value_at_time := g\<rparr>) file formant label start word k =
     (segment_row cfg env file formant label start word k)
       \<lparr>F1 := F1 (segment_row cfg (env\<lparr>get_value_at_time := g\<rparr>) file formant label start word k),
        F2 := F2 (segment_row cfg (env\<lparr>get_value_at_time := g\<rparr>) file formant label start word k)\<rparr>"
  by (simp add: segment_row_def Let_def)

lemma vowel_block_other_values:
  assumes "list_all2 (\<lambda>r r'. r' = r\<lparr>F1 := F1 r', F2 := F2 r'\<rparr>) d d'"
  shows "list_all2 (\<lambda>r r'. r' = r\<lparr>F1 := F1 r', F2 := F2 r'\<rparr>)
           (fst (vowel_block cfg env file formant tg tierIdx intervalIdx label d))
           (fst (vowel_block cfg (env\<lparr>get_value_at_time := g\<rparr>) file formant tg tierIdx intervalIdx label d'))
       \<and> snd (vowel_block cfg env file formant tg tierIdx intervalIdx label d) =
         snd (vowel_block cfg (env\<lparr>get_value_at_time := g\<rparr>) file formant tg tierIdx intervalIdx label d')"
proof -
  have rows: "list_all2 (\<lambda>r r'. r' = r\<lparr>F1 := F1 r', F2 := F2 r'\<rparr>)
      (d @ map (segment_row cfg env file formant label start word) ks)
      (d' @ map (segment_row cfg (env\<lparr>get_value_at_time := g\<rparr>) file formant label start word) ks)"
    for start word ks
    using assms
    by (intro list_all2_appendI) (simp_all add: list_all2_map1 list_all2_map2 list_all2_same
        segment_row_other_values[symmetric])
  show ?thesis
    unfolding vowel_block_def Let_def segment_loop_eq
    using assms rows by (auto split: sum.splits)
qed

lemma interval_body_other_values:
  assumes "list_all2 (\<lambda>r r'. r' = r\<lparr>F1 := F1 r', F2 := F2 r'\<rparr>) d d'"
  shows "list_all2 (\<lambda>r r'. r' = r\<lparr>F1 := F1 r', F2 := F2 r'\<rparr>)
           (fst (interval_body cfg env file formant tg tierIdx intervalIdx d))
           (fst (interval_body cfg (env\<lparr>get_value_at_time := g\<rparr>) file formant tg tierIdx intervalIdx d'))
       \<and> snd (interval_body cfg env file formant tg tierIdx intervalIdx d) =
         snd (interval_body cfg (env\<lparr>get_value_at_time := g\<rparr>) file formant tg tierIdx intervalIdx d')"
  unfolding interval_body_def
  using assms vowel_block_other_values[OF assms, of cfg env "file" formant tg tierIdx intervalIdx _ g]
  by (auto split: sum.splits)

lemma tier_body_other_values:
  assumes "list_all2 (\<lambda>r r'. r' = r\<lparr>F1 := F1 r', F2 := F2 r'\<rparr>) d d'"
  shows "list_all2 (\<lambda>r r'. r' = r\<lparr>F1 := F1 r', F2 := F2 r'\<rparr>)
           (fst (tier_body cfg env file formant tg tierIdx d))
           (fst (tier_body cfg (env\<lparr>get_value_at_time := g\<rparr>) file formant tg tierIdx d'))
       \<and> snd (tier_body cfg env file formant tg tierIdx d) =
         snd (tier_body cfg (env\<lparr>get_value_at_time := g\<rparr>) file formant tg tierIdx d')"
proof -
  have loop: "list_all2 (\<lambda>r r'. r' = r\<lparr>F1 := F1 r', F2 := F2 r'\<rparr>)
           (fst (for_loop xs (interval_body cfg env file formant tg tierIdx) d))
           (fst (for_loop xs (interval_body cfg (env\<lparr>get_value_at_time := g\<rparr>) file formant tg tierIdx) d'))
       \<and> snd (for_loop xs (interval_body cfg env file formant tg tierIdx) d) =
         snd (for_loop xs (interval_body cfg (env\<lparr>get_value_at_time := g\<rparr>) file formant tg tierIdx) d')"
    for xs
    by (rule for_loop_rel[where R = "list_all2 (\<lambda>r r'. r' = r\<lparr>F1 := F1 r', F2 := F2 r'\<rparr>)"])
       (rule interval_body_other_values, assumption, rule assms)
  show ?thesis
    unfolding tier_body_def using assms loop by (auto split: sum.splits)
qed

lemma file_body_other_values:
  fixes env :: "('s, 'f, 'v) env" and st :: "'v state"
  shows "list_all2 (\<lambda>r r'. r' = r\<lparr>F1 := F1 r', F2 := F2 r'\<rparr>)
           (st_data (fst (file_body cfg env file st)))
           (st_data (fst (file_body cfg (env\<lparr>get_value_at_time := g\<rparr>) file st)))
       \<and> snd (file_body cfg env file st) = snd (file_body cfg (env\<lparr>get_value_at_time := g\<rparr>) file st)"
proof -
  have same: "list_all2 (\<lambda>r r'. r' = r\<lparr>F1 := F1 r', F2 := F2 r'\<rparr>) (st_data st) (st_data st)"
    by (simp add: list_all2_same)
  have loop: "list_all2 (\<lambda>r r'. r' = r\<lparr>F1 := F1 r', F2 := F2 r'\<rparr>)
           (fst (for_loop xs (tier_body cfg env file formant tg) (st_data st)))
           (fst (for_loop xs (tier_body cfg (env\<lparr>get_value_at_time := g\<rparr>) file formant tg) (st_data st)))
       \<and> snd (for_loop xs (tier_body cfg env file formant tg) (st_data st)) =
         snd (for_loop xs (tier_body cfg (env\<lparr>get_value_at_time := g\<rparr>) file formant tg) (st_data st))"
    for xs formant tg
    by (rule for_loop_rel[where R = "list_all2 (\<lambda>r r'. r' = r\<lparr>F1 := F1 r', F2 := F2 r'\<rparr>)"])
       (rule tier_body_other_values, assumption, rule same)
  show ?thesis
  proof (cases "endswith file ''.wav'' \<and> path_exists env (tg_path cfg @ py_slice 0 (- 4) file @ ''.TextGrid'')")
    case False
    then show ?thesis using same by (auto simp: file_body_def)
  next
    case True
    show ?thesis
    proof (cases "Sound env (wav_path cfg @ file)")
      case (Inl e)
      then show ?thesis using True same by (simp add: file_body_def)
    next
      case (Inr wav)
      show ?thesis
      proof (cases "Data_read env (tg_path cfg @ py_slice 0 (- 4) file @ ''.TextGrid'')")
        case (Inl e)
        then show ?thesis using True Inr same by (simp add: file_body_def)
      next
        case tg: (Inr tg)
        define formant where "formant = to_formant_burg env wav (time_step cfg)
            (maximum_number_of_formants cfg) (maximum_formant cfg) (window_length cfg)
            (preemphasis_from cfg)"
        define xs where "xs = [1..<get_number_of_tiers tg + 1]"
        obtain d1 e1 where l1: "for_loop xs (tier_body cfg env file formant tg) (st_data st) = (d1, e1)"
          by (cases "for_loop xs (tier_body cfg env file formant tg) (st_data st)")
        obtain d2 e2 where l2: "for_loop xs (tier_body cfg (env\<lparr>get_value_at_time := g\<rparr>) file formant tg)
            (st_data st) = (d2, e2)"
          by (cases "for_loop xs (tier_body cfg (env\<lparr>get_value_at_time := g\<rparr>) file formant tg) (st_data st)")
        from loop[of xs formant tg] l1 l2
        have rel: "list_all2 (\<lambda>r r'. r' = r\<lparr>F1 := F1 r', F2 := F2 r'\<rparr>) d1 d2" and err: "e1 = e2"
          by simp_all
        have "file_body cfg env file st =
            (st\<lparr>st_stdout := st_stdout st @ [Processing (st_file_counter st) file],
                st_file_counter := st_file_counter st + 1, st_data := d1\<rparr>, e1)"
          using True Inr tg l1 by (simp add: file_body_def Let_def formant_def xs_def)
        moreover have "file_body cfg (env\<lparr>get_value_at_time := g\<rparr>) file st =
            (st\<lparr>st_stdout := st_stdout st @ [Processing (st_file_counter st) file],
                st_file_counter := st_file_counter st + 1, st_data := d2\<rparr>, e2)"
          using True Inr tg l2 by (simp add: file_body_def Let_def formant_def xs_def)
        ultimately show ?thesis using rel err by simp
      qed
    qed
  qed
qed

text \<open>
  C7. Every row appended for a file records as F1 and F2 what the value-at-time query
  answers for components 1 and 2 of that file's formant object at the row's sample
  time. The type of the answers is arbitrary, so an undefined answer is recorded like
  any other; and replacing the query by any other changes nothing but the F1 and F2
  fields: the same rows are appended and the outcome is the same.
\<close>

theorem formant_values_pass_through:
  fixes env :: "('s, 'f, 'v) env" and st :: "'v state"
  shows "(\<exists>rows. st_data (fst (file_body cfg env file st)) = st_data st @ rows
            \<and> (\<forall>r \<in> set rows. \<exists>wav. Sound env (wav_path cfg @ file) = Inr wav
                 \<and> F1 r = get_value_at_time env
                            (to_formant_burg env wav (time_step cfg) (maximum_number_of_formants cfg)
                               (maximum_formant cfg) (window_length cfg) (preemphasis_from cfg))
                            1 (Time_of_formant_measurements r)
                 \<and> F2 r = get_value_at_time env
                            (to_formant_burg env wav (time_step cfg) (maximum_number_of_formants cfg)
                               (maximum_formant cfg) (window_length cfg) (preemphasis_from cfg))
                            2 (Time_of_formant_measurements r)))
       \<and> list_all2 (\<lambda>r r'. r' = r\<lparr>F1 := F1 r', F2 := F2 r'\<rparr>)
           (st_data (fst (file_body cfg env file st)))
           (st_data (fst (file_body cfg (env\<lparr>get_value_at_time := g\<rparr>) file st)))
       \<and> snd (file_body cfg env file st) = snd (file_body cfg (env\<lparr>get_value_at_time := g\<rparr>) file st)"
proof -
  define P :: "'v row \<Rightarrow> bool" where
    "P = (\<lambda>r. \<exists>wav. Sound env (wav_path cfg @ file) = Inr wav
                 \<and> F1 r = get_value_at_time env
                            (to_formant_burg env wav (time_step cfg) (maximum_number_of_formants cfg)
                               (maximum_formant cfg) (window_length cfg) (preemphasis_from cfg))
                            1 (Time_of_formant_measurements r)
                 \<and> F2 r = get_value_at_time env
                            (to_formant_burg env wav (time_step cfg) (maximum_number_of_formants cfg)
                               (maximum_formant cfg) (window_length cfg) (preemphasis_from cfg))
                            2 (Time_of_formant_measurements r))"
  have "\<exists>rows. st_data (fst (file_body cfg env file st)) = st_data st @ rows \<and> list_all P rows"
    by (rule file_body_rows) (auto simp: P_def segment_row_simps)
  then have "\<exists>rows. st_data (fst (file_body cfg env file st)) = st_data st @ rows
      \<and> (\<forall>r \<in> set rows. P r)"
    by (simp add: list_all_iff)
  then show ?thesis
    unfolding P_def using file_body_other_values[of cfg env "file" st g] by blast
qed

theorem formant_values_pass_through_witness:
  "map F1 (st_data (fst (file_body demo_config demo_env ''p113_int.wav'' demo_state))) =
     [Some (1, 3 / 8), Some (1, 1 / 2), Some (1, 5 / 8), None, None]
   \<and> list_all (\<lambda>r. F2 r = (if Time_of_formant_measurements r < 3 / 4
                             then Some (2, Time_of_formant_measurements r) else None))
       (st_data (fst (file_body demo_config demo_env ''p113_int.wav'' demo_state)))
   \<and> length (st_data (fst (file_body demo_config
        (demo_env\<lparr>get_value_at_time := (\<lambda>f k t. None)\<rparr>) ''p113_int.wav'' demo_state))) = 5"
proof -
  note th = formant_values_pass_through[of demo_config demo_env "''p113_int.wav''" demo_state
      "\<lambda>f k t. None"]
  have gv: "get_value_at_time demo_env f k t = (if t < 3 / 4 then Some (k, t) else None)" for f k t
    by (simp add: demo_env_def)
  have a: "map F1 (st_data (fst (file_body demo_config demo_env ''p113_int.wav'' demo_state))) =
     [Some (1, 3 / 8), Some (1, 1 / 2), Some (1, 5 / 8), None, None]"
    by code_simp
  have b: "list_all (\<lambda>r. F2 r = (if Time_of_formant_measurements r < 3 / 4
                             then Some (2, Time_of_formant_measurements r) else None))
       (st_data (fst (file_body demo_config demo_env ''p113_int.wav'' demo_state)))"
    using th by (auto simp: list_all_iff gv demo_state_def)
  have "length (st_data (fst (file_body demo_config demo_env ''p113_int.wav'' demo_state))) = 5"
    by code_simp
  moreover have "length (st_data (fst (file_body demo_config demo_env ''p113_int.wav'' demo_state))) =
      length (st_data (fst (file_body demo_config
        (demo_env\<lparr>get_value_at_time := (\<lambda>f k t. None)\<rparr>) ''p113_int.wav'' demo_state)))"
    using th by (blast dest: list_all2_lengthD)
  ultimately have c: "length (st_data (fst (file_body demo_config
        (demo_env\<lparr>get_value_at_time := (\<lambda>f k t. None)\<rparr>) ''p113_int.wav'' demo_state))) = 5"
    by simp
  from a b c show ?thesis by simp
qed

end
